theory Spec2Isabelle
  imports Main "HOL-Library.Char_ord" "HOL-Library.List_Lexorder"
begin

section \<open>Types of the application\<close>

datatype TaskStatus = status_todo | status_in_progress | status_review | status_done

datatype TaskPriority = low | medium | high | urgent

datatype TaskCategory = development | design | marketing | testing | meeting | bug_fix

datatype UserRole = role_admin | role_user | role_guest

datatype ThemeMode = light | dark

datatype SortOption = sort_newest | sort_oldest | sort_priority | sort_dueDate | sort_title

text \<open>
  The constructors of \<open>TaskStatus\<close> carry the prefix \<open>status_\<close> (\<open>done\<close> is a keyword
  of Isabelle), those of \<open>UserRole\<close> and \<open>SortOption\<close> a prefix that keeps them apart from
  the field names below.

  \<open>Omit<Task, "id" | "createdAt" | "updatedAt">\<close> is the argument type of \<open>addTask\<close>;
  \<open>Task\<close> extends it by the three fields the store fills in. Timestamps and ids are
  strings, as in the source. \<open>estimatedHours\<close> is a JavaScript number; no operation of the
  store computes with it, and it is kept as an integer. The field \<open>id\<close> is written
  \<open>id_T\<close> (\<open>id_U\<close> for a user) because \<open>id\<close> is the identity function of HOL.
\<close>

record TaskData =
  title :: string
  description :: string
  status :: TaskStatus
  priority :: TaskPriority
  category :: TaskCategory
  dueDate :: string
  tags :: "string list"
  assignee :: "string option"
  estimatedHours :: "int option"

record Task = TaskData +
  id_T :: string
  createdAt :: string
  updatedAt :: string

text \<open>
  \<open>Partial<Task>\<close>: every field of \<open>Task\<close> may be present or absent, \<open>id\<close>,
  \<open>createdAt\<close> and \<open>updatedAt\<close> included. \<open>None\<close> is an absent key. For the two
  optional fields of \<open>Task\<close> a present key may carry \<open>undefined\<close> (\<open>Some None\<close>); for the
  other fields a present key carries a value of the field's type.
\<close>

record TaskUpdates =
  title_P :: "string option"
  description_P :: "string option"
  status_P :: "TaskStatus option"
  priority_P :: "TaskPriority option"
  category_P :: "TaskCategory option"
  dueDate_P :: "string option"
  tags_P :: "string list option"
  assignee_P :: "string option option"
  estimatedHours_P :: "int option option"
  id_P :: "string option"
  createdAt_P :: "string option"
  updatedAt_P :: "string option"

record User =
  id_U :: string
  name :: string
  email :: string
  avatar :: "string option"
  role :: UserRole
  joinedAt :: string

record TaskFilters =
  status_F :: "TaskStatus list option"
  priority_F :: "TaskPriority list option"
  category_F :: "TaskCategory list option"
  searchQuery :: "string option"
  dateRange :: "(string \<times> string) option"

text \<open>
  \<open>Partial<TaskFilters>\<close>, the argument of \<open>setFilters\<close>. Every field of \<open>TaskFilters\<close>
  is optional, so a key of the argument is absent (\<open>None\<close>), present with the value
  \<open>undefined\<close> (\<open>Some None\<close>) or present with a value (\<open>Some (Some v)\<close>).
\<close>

record TaskFiltersUpdate =
  status_FU :: "TaskStatus list option option"
  priority_FU :: "TaskPriority list option option"
  category_FU :: "TaskCategory list option option"
  searchQuery_FU :: "string option option"
  dateRange_FU :: "(string \<times> string) option option"

section \<open>The store (store/useStore.ts)\<close>

record AppState =
  tasks :: "Task list"
  user :: "User option"
  theme :: ThemeMode
  filters :: TaskFilters
  sortBy :: SortOption
  isLoading :: bool

definition noFilters :: TaskFilters where
  "noFilters = \<lparr>status_F = None, priority_F = None, category_F = None,
     searchQuery = None, dateRange = None\<rparr>"

definition noUpdates :: TaskUpdates where
  "noUpdates = \<lparr>title_P = None, description_P = None, status_P = None, priority_P = None,
     category_P = None, dueDate_P = None, tags_P = None, assignee_P = None,
     estimatedHours_P = None, id_P = None, createdAt_P = None, updatedAt_P = None\<rparr>"

definition initialState :: AppState where
  "initialState = \<lparr>tasks = [], user = None, theme = light, filters = noFilters,
     sortBy = sort_newest, isLoading = False\<rparr>"

subsection \<open>Numbers as template strings\<close>

text \<open>
  \<open>`${n}`\<close> for an integral JavaScript number below \<open>10^21\<close> in magnitude: its decimal
  digits, with a leading minus sign when negative.
\<close>

definition digit :: "nat \<Rightarrow> char" where
  "digit n = ''0123456789'' ! (n mod 10)"

fun showNat :: "nat \<Rightarrow> string" where
  "showNat n = (if n < 10 then [digit n] else showNat (n div 10) @ [digit n])"

declare showNat.simps [simp del]

definition showInt :: "int \<Rightarrow> string" where
  "showInt i = (if i < 0 then CHR ''-'' # showNat (nat (- i)) else showNat (nat i))"

subsection \<open>generateId\<close>

text \<open>
  \<open>`${Date.now()}-${Math.random().toString(36).substr(2, 9)}`\<close>. The two readings of the
  environment are arguments: \<open>nowMs\<close> is the value of \<open>Date.now()\<close> and \<open>rnd\<close> the string
  \<open>Math.random().toString(36)\<close>. \<open>substr(2, 9)\<close> keeps at most nine characters from
  position two.
\<close>

definition substr :: "string \<Rightarrow> nat \<Rightarrow> nat \<Rightarrow> string" where
  "substr s start len = take len (drop start s)"

definition generateId :: "int \<Rightarrow> string \<Rightarrow> string" where
  "generateId nowMs rnd = showInt nowMs @ ''-'' @ substr rnd 2 9"

subsection \<open>Task actions\<close>

text \<open>
  \<open>addTask\<close> reads the environment four times, in this order: \<open>Date.now()\<close> and
  \<open>Math.random()\<close> inside \<open>generateId\<close>, then \<open>new Date()\<close> for \<open>createdAt\<close> and
  \<open>new Date()\<close> again for \<open>updatedAt\<close>. \<open>toISOString\<close> stands for \<open>Date.prototype.toISOString\<close>.
\<close>

definition newTask :: "(int \<Rightarrow> string) \<Rightarrow> int \<Rightarrow> string \<Rightarrow> int \<Rightarrow> int \<Rightarrow> TaskData \<Rightarrow> Task" where
  "newTask toISOString nowMs rnd t1 t2 taskData =
     \<lparr>title = title taskData, description = description taskData, status = status taskData,
      priority = priority taskData, category = category taskData, dueDate = dueDate taskData,
      tags = tags taskData, assignee = assignee taskData,
      estimatedHours = estimatedHours taskData,
      id_T = generateId nowMs rnd, createdAt = toISOString t1, updatedAt = toISOString t2\<rparr>"

definition addTask :: "(int \<Rightarrow> string) \<Rightarrow> int \<Rightarrow> string \<Rightarrow> int \<Rightarrow> int \<Rightarrow> TaskData \<Rightarrow> AppState \<Rightarrow> AppState" where
  "addTask toISOString nowMs rnd t1 t2 taskData state =
     state\<lparr>tasks := newTask toISOString nowMs rnd t1 t2 taskData # tasks state\<rparr>"

text \<open>\<open>{...task, ...updates}\<close>: a key present in \<open>updates\<close> replaces the task's value.\<close>

definition override :: "'a option \<Rightarrow> 'a \<Rightarrow> 'a" where
  "override new old = (case new of None \<Rightarrow> old | Some v \<Rightarrow> v)"

definition spread :: "Task \<Rightarrow> TaskUpdates \<Rightarrow> Task" where
  "spread task updates =
     \<lparr>title = override (title_P updates) (title task),
      description = override (description_P updates) (description task),
      status = override (status_P updates) (status task),
      priority = override (priority_P updates) (priority task),
      category = override (category_P updates) (category task),
      dueDate = override (dueDate_P updates) (dueDate task),
      tags = override (tags_P updates) (tags task),
      assignee = override (assignee_P updates) (assignee task),
      estimatedHours = override (estimatedHours_P updates) (estimatedHours task),
      id_T = override (id_P updates) (id_T task),
      createdAt = override (createdAt_P updates) (createdAt task),
      updatedAt = override (updatedAt_P updates) (updatedAt task)\<rparr>"

text \<open>
  The callback of \<open>state.tasks.map\<close> in \<open>updateTask\<close>. It evaluates \<open>new Date()\<close> once for
  every task whose id matches, so the \<open>k\<close>-th matching task receives the \<open>k\<close>-th reading
  \<open>clock k\<close> of the wall clock taken during the call.
\<close>

fun updateTasks :: "(int \<Rightarrow> string) \<Rightarrow> (nat \<Rightarrow> int) \<Rightarrow> nat \<Rightarrow> string \<Rightarrow> TaskUpdates \<Rightarrow> Task list \<Rightarrow> Task list" where
  "updateTasks toISOString clock k i updates [] = []"
| "updateTasks toISOString clock k i updates (task # rest) =
     (if id_T task = i
      then (spread task updates)\<lparr>updatedAt := toISOString (clock k)\<rparr>
             # updateTasks toISOString clock (Suc k) i updates rest
      else task # updateTasks toISOString clock k i updates rest)"

definition updateTask :: "(int \<Rightarrow> string) \<Rightarrow> (nat \<Rightarrow> int) \<Rightarrow> string \<Rightarrow> TaskUpdates \<Rightarrow> AppState \<Rightarrow> AppState" where
  "updateTask toISOString clock i updates state =
     state\<lparr>tasks := updateTasks toISOString clock 0 i updates (tasks state)\<rparr>"

text \<open>
  The number of tasks among the first \<open>j\<close> whose id is \<open>i\<close>: the index of the clock
  reading that the task at position \<open>j\<close> receives in \<open>updateTask\<close>.
\<close>

definition matchesBefore :: "string \<Rightarrow> nat \<Rightarrow> Task list \<Rightarrow> nat" where
  "matchesBefore i j ts = length (filter (\<lambda>task. id_T task = i) (take j ts))"

definition deleteTask :: "string \<Rightarrow> AppState \<Rightarrow> AppState" where
  "deleteTask i state = state\<lparr>tasks := filter (\<lambda>task. id_T task \<noteq> i) (tasks state)\<rparr>"

definition moveTask :: "(int \<Rightarrow> string) \<Rightarrow> (nat \<Rightarrow> int) \<Rightarrow> string \<Rightarrow> TaskStatus \<Rightarrow> AppState \<Rightarrow> AppState" where
  "moveTask toISOString clock i newStatus state =
     updateTask toISOString clock i (noUpdates\<lparr>status_P := Some newStatus\<rparr>) state"

subsection \<open>User actions\<close>

definition setUser :: "User option \<Rightarrow> AppState \<Rightarrow> AppState" where
  "setUser u state = state\<lparr>user := u\<rparr>"

definition logout :: "AppState \<Rightarrow> AppState" where
  "logout state = state\<lparr>user := None, tasks := []\<rparr>"

subsection \<open>Theme actions\<close>

text \<open>
  The theme actions also add or remove the class \<open>dark\<close> on the document's root element.
  That flag lives outside the store; \<open>World\<close> pairs it with the store's state.
\<close>

record World =
  store :: AppState
  darkClass :: bool

definition toggleTheme :: "World \<Rightarrow> World" where
  "toggleTheme w =
     (let newTheme = (if theme (store w) = light then dark else light)
      in \<lparr>store = (store w)\<lparr>theme := newTheme\<rparr>, darkClass = (newTheme = dark)\<rparr>)"

definition setTheme :: "ThemeMode \<Rightarrow> World \<Rightarrow> World" where
  "setTheme th w = \<lparr>store = (store w)\<lparr>theme := th\<rparr>, darkClass = (th = dark)\<rparr>"

subsection \<open>Filter actions\<close>

text \<open>
  \<open>{ ...state.filters, ...newFilters }\<close>: a key present in \<open>newFilters\<close> replaces the
  filter, also when its value is \<open>undefined\<close>, which leaves the filter unset.
\<close>

definition mergeFilters :: "TaskFilters \<Rightarrow> TaskFiltersUpdate \<Rightarrow> TaskFilters" where
  "mergeFilters old new =
     \<lparr>status_F = override (status_FU new) (status_F old),
      priority_F = override (priority_FU new) (priority_F old),
      category_F = override (category_FU new) (category_F old),
      searchQuery = override (searchQuery_FU new) (searchQuery old),
      dateRange = override (dateRange_FU new) (dateRange old)\<rparr>"

definition setFilters :: "TaskFiltersUpdate \<Rightarrow> AppState \<Rightarrow> AppState" where
  "setFilters newFilters state = state\<lparr>filters := mergeFilters (filters state) newFilters\<rparr>"

definition clearFilters :: "AppState \<Rightarrow> AppState" where
  "clearFilters state = state\<lparr>filters := noFilters\<rparr>"

definition setSortBy :: "SortOption \<Rightarrow> AppState \<Rightarrow> AppState" where
  "setSortBy s state = state\<lparr>sortBy := s\<rparr>"

subsection \<open>Demo data\<close>

text \<open>
  \<open>initializeDemo\<close> builds three tasks. Each one reads the environment five times:
  \<open>Date.now()\<close> and \<open>Math.random()\<close> in \<open>generateId\<close>, \<open>Date.now()\<close> for the due date,
  \<open>new Date()\<close> for \<open>createdAt\<close> and \<open>new Date()\<close> for \<open>updatedAt\<close>.
\<close>

record DemoReadings =
  idNow :: int
  idRandom :: string
  dueNow :: int
  createdNow :: int
  updatedNow :: int

definition demoTasks :: "(int \<Rightarrow> string) \<Rightarrow> DemoReadings \<Rightarrow> DemoReadings \<Rightarrow> DemoReadings \<Rightarrow> Task list" where
  "demoTasks toISOString r1 r2 r3 =
     [\<lparr>title = ''Design Main Interface'',
       description = ''Create a professional design for the homepage with attractive colors'',
       status = status_in_progress, priority = high, category = design,
       dueDate = toISOString (dueNow r1 + 2 * 24 * 60 * 60 * 1000),
       tags = [''UI'', ''Design'', ''Homepage''], assignee = None, estimatedHours = Some 8,
       id_T = generateId (idNow r1) (idRandom r1),
       createdAt = toISOString (createdNow r1), updatedAt = toISOString (updatedNow r1)\<rparr>,
      \<lparr>title = ''Fix Bug on Registration Page'',
       description = ''Users are unable to log in from the browser'',
       status = status_todo, priority = urgent, category = bug_fix,
       dueDate = toISOString (dueNow r2 + 1 * 24 * 60 * 60 * 1000),
       tags = [''Bug'', ''Auth'', ''Critical''], assignee = None, estimatedHours = Some 3,
       id_T = generateId (idNow r2) (idRandom r2),
       createdAt = toISOString (createdNow r2), updatedAt = toISOString (updatedNow r2)\<rparr>,
      \<lparr>title = ''Write Unit Tests'',
       description = ''Write tests for the main components'',
       status = status_review, priority = medium, category = testing,
       dueDate = toISOString (dueNow r3 + 5 * 24 * 60 * 60 * 1000),
       tags = [''Testing'', ''Quality''], assignee = None, estimatedHours = Some 10,
       id_T = generateId (idNow r3) (idRandom r3),
       createdAt = toISOString (createdNow r3), updatedAt = toISOString (updatedNow r3)\<rparr>]"

definition initializeDemo :: "(int \<Rightarrow> string) \<Rightarrow> DemoReadings \<Rightarrow> DemoReadings \<Rightarrow> DemoReadings \<Rightarrow> AppState \<Rightarrow> AppState" where
  "initializeDemo toISOString r1 r2 r3 state = state\<lparr>tasks := demoTasks toISOString r1 r2 r3\<rparr>"

subsection \<open>What is persisted\<close>

text \<open>
  \<open>partialize\<close> returns an object literal with three keys. An object is an association
  list from key to value, in the order of the literal. The values are those that reach
  the storage slot: the three fields of the state, a number, and a nested object.
\<close>

datatype PersistedValue =
  TasksValue "Task list"
| UserValue "User option"
| ThemeValue ThemeMode
| NumberValue int
| ObjectValue "(string \<times> PersistedValue) list"

definition partialize :: "AppState \<Rightarrow> (string \<times> PersistedValue) list" where
  "partialize state =
     [(''tasks'', TasksValue (tasks state)),
      (''user'', UserValue (user state)),
      (''theme'', ThemeValue (theme state))]"

subsection \<open>Runs of the store\<close>

text \<open>
  One constructor for each action of the store, carrying the action's arguments and the
  readings of the environment it takes.
\<close>

datatype Action =
  AddTask int string int int TaskData
| UpdateTask "nat \<Rightarrow> int" string TaskUpdates
| DeleteTask string
| MoveTask "nat \<Rightarrow> int" string TaskStatus
| SetUser "User option"
| Logout
| ToggleTheme
| SetTheme ThemeMode
| SetFilters TaskFiltersUpdate
| ClearFilters
| SetSortBy SortOption
| InitializeDemo DemoReadings DemoReadings DemoReadings

fun step :: "(int \<Rightarrow> string) \<Rightarrow> World \<Rightarrow> Action \<Rightarrow> World" where
  "step toISOString w (AddTask nowMs rnd t1 t2 taskData) =
     w\<lparr>store := addTask toISOString nowMs rnd t1 t2 taskData (store w)\<rparr>"
| "step toISOString w (UpdateTask clock i updates) =
     w\<lparr>store := updateTask toISOString clock i updates (store w)\<rparr>"
| "step toISOString w (DeleteTask i) = w\<lparr>store := deleteTask i (store w)\<rparr>"
| "step toISOString w (MoveTask clock i newStatus) =
     w\<lparr>store := moveTask toISOString clock i newStatus (store w)\<rparr>"
| "step toISOString w (SetUser u) = w\<lparr>store := setUser u (store w)\<rparr>"
| "step toISOString w Logout = w\<lparr>store := logout (store w)\<rparr>"
| "step toISOString w ToggleTheme = toggleTheme w"
| "step toISOString w (SetTheme th) = setTheme th w"
| "step toISOString w (SetFilters newFilters) = w\<lparr>store := setFilters newFilters (store w)\<rparr>"
| "step toISOString w ClearFilters = w\<lparr>store := clearFilters (store w)\<rparr>"
| "step toISOString w (SetSortBy s) = w\<lparr>store := setSortBy s (store w)\<rparr>"
| "step toISOString w (InitializeDemo r1 r2 r3) =
     w\<lparr>store := initializeDemo toISOString r1 r2 r3 (store w)\<rparr>"



subsection \<open>The storage slot\<close>

text \<open>
  The store is created inside the \<open>persist\<close> middleware of zustand, with the options
  \<open>name: "taskflow-storage"\<close>, \<open>storage: createJSONStorage(() => localStorage)\<close> and
  \<open>partialize\<close>; no \<open>version\<close> is given, so the middleware's default \<open>0\<close> applies. The
  middleware is library code. After every \<open>set\<close> of the store it writes
  \<open>{ state: partialize(state), version }\<close> under the key \<open>name\<close>, and every action of the
  store calls \<open>set\<close> once. The slot holds the JSON text of that object; it is kept here as
  the object itself.
\<close>

definition persistName :: string where
  "persistName = ''taskflow-storage''"

definition persistVersion :: int where
  "persistVersion = 0"

definition persistedObject :: "AppState \<Rightarrow> PersistedValue" where
  "persistedObject state =
     ObjectValue [(''state'', ObjectValue (partialize state)),
                  (''version'', NumberValue persistVersion)]"

type_synonym Storage = "string \<Rightarrow> PersistedValue option"

definition setItem :: "AppState \<Rightarrow> Storage \<Rightarrow> Storage" where
  "setItem state storage = storage(persistName \<mapsto> persistedObject state)"

record Browser =
  world :: World
  localStorage :: Storage

definition dispatch :: "(int \<Rightarrow> string) \<Rightarrow> Browser \<Rightarrow> Action \<Rightarrow> Browser" where
  "dispatch toISOString b a =
     (let w = step toISOString (world b) a
      in \<lparr>world = w, localStorage = setItem (store w) (localStorage b)\<rparr>)"

fun topLevelKeys :: "PersistedValue \<Rightarrow> string list" where
  "topLevelKeys (ObjectValue fs) = map fst fs"
| "topLevelKeys _ = []"




section \<open>The derived-view hook (useTasks)\<close>

text \<open>
  The hook's \<open>moveTask\<close> reads the clock once (\<open>t0\<close>) for the \<open>updatedAt\<close> key of the
  update it hands to the store's \<open>updateTask\<close>.
\<close>

definition useTasks_moveTask :: "(int \<Rightarrow> string) \<Rightarrow> int \<Rightarrow> (nat \<Rightarrow> int) \<Rightarrow> string \<Rightarrow> TaskStatus \<Rightarrow> AppState \<Rightarrow> AppState" where
  "useTasks_moveTask toISOString t0 clock taskId newStatus state =
     updateTask toISOString clock taskId
       (noUpdates\<lparr>status_P := Some newStatus, updatedAt_P := Some (toISOString t0)\<rparr>) state"

section \<open>Date helpers (utils/dateHelpers.ts)\<close>

text \<open>
  The numbers these helpers handle are day counts: an integer, or \<open>NaN\<close> when a date is
  invalid. A \<open>Date\<close> is its time value in milliseconds, \<open>None\<close> for an invalid date.
\<close>

datatype number = NaN | Num int




fun le :: "number \<Rightarrow> int \<Rightarrow> bool" where
  "le NaN b = False"
| "le (Num a) b = (a \<le> b)"







section \<open>Generic helpers\<close>

text \<open>
  \<open>String.prototype.substring\<close> on integer positions: both are clamped to the string and
  swapped when out of order.
\<close>

definition substring :: "string \<Rightarrow> int \<Rightarrow> int \<Rightarrow> string" where
  "substring s a b =
     (let len = int (length s);
          a' = max 0 (min a len);
          b' = max 0 (min b len);
          lo = min a' b';
          hi = max a' b'
      in take (nat (hi - lo)) (drop (nat lo) s))"

definition truncate :: "string \<Rightarrow> int \<Rightarrow> string" where
  "truncate text_in maxLength =
     (if int (length text_in) \<le> maxLength then text_in
      else substring text_in 0 maxLength @ ''...'')"

section \<open>Sample environments and data\<close>

text \<open>
  Values of \<open>toISOString\<close> and of the \<open>Date\<close> constructor at the instants and strings
  the examples below use (every other argument falls to the last line and occurs in no
  example), and \<open>differenceInDays\<close> as date-fns computes it when local time is UTC
  (whole days, rounded towards zero). The instant \<open>1700000000000\<close> is
  \<open>2023-11-14T22:13:20.000Z\<close>.
\<close>

definition isoTable :: "int \<Rightarrow> string" where
  "isoTable ms =
     (if ms = 1699999999000 then ''2023-11-14T22:13:19.000Z''
      else if ms = 1700000000000 then ''2023-11-14T22:13:20.000Z''
      else if ms = 1700000000001 then ''2023-11-14T22:13:20.001Z''
      else if ms = 1700000000002 then ''2023-11-14T22:13:20.002Z''
      else if ms = 1700000060000 then ''2023-11-14T22:14:20.000Z''
      else if ms = 1700086400000 then ''2023-11-15T22:13:20.000Z''
      else if ms = 1700172800000 then ''2023-11-16T22:13:20.000Z''
      else if ms = 1700432000000 then ''2023-11-19T22:13:20.000Z''
      else ''1970-01-01T00:00:00.000Z'')"



text \<open>A clock that gives the same reading every time it is read during one action.\<close>

definition steadyClock :: "int \<Rightarrow> nat \<Rightarrow> int" where
  "steadyClock t k = t"

definition sampleData :: "string \<Rightarrow> TaskData" where
  "sampleData t =
     \<lparr>title = t, description = ''Prepare the release notes'', status = status_todo,
      priority = medium, category = development, dueDate = ''2023-11-16T22:13:20.000Z'',
      tags = [''docs''], assignee = None, estimatedHours = Some 2\<rparr>"

definition sampleTask :: "string \<Rightarrow> string \<Rightarrow> Task" where
  "sampleTask i t =
     \<lparr>title = t, description = ''Prepare the release notes'', status = status_todo,
      priority = medium, category = development, dueDate = ''2023-11-16T22:13:20.000Z'',
      tags = [''docs''], assignee = None, estimatedHours = Some 2,
      id_T = i, createdAt = ''2023-11-14T22:13:20.000Z'',
      updatedAt = ''2023-11-14T22:13:20.000Z''\<rparr>"

definition sampleState :: AppState where
  "sampleState = initialState\<lparr>tasks := [sampleTask ''1700000000000-4fzyo82mv'' ''Notes'',
     sampleTask ''1700000000001-k2j8x0q1z'' ''Review'']\<rparr>"



definition sampleBrowser :: Browser where
  "sampleBrowser = \<lparr>world = \<lparr>store = sampleState, darkClass = False\<rparr>,
     localStorage = Map.empty\<rparr>"


section \<open>Properties of the store\<close>

subsection \<open>Updating the task list\<close>

lemma updateTasks_length:
  "length (updateTasks toISOString clock k i updates ts) = length ts"
  by (induction ts arbitrary: k) simp_all

lemma updateTasks_no_match:
  "i \<notin> set (map id_T ts) \<Longrightarrow> updateTasks toISOString clock k i updates ts = ts"
  by (induction ts arbitrary: k) auto

lemma filter_no_match:
  "i \<notin> set (map id_T ts) \<Longrightarrow> filter (\<lambda>task. id_T task \<noteq> i) ts = ts"
  by (induction ts) auto

text \<open>
  \<open>updatedAt\<close> is assigned after the spread, so an \<open>updatedAt\<close> key in the update is lost.
\<close>

lemma spread_updatedAt_overwritten:
  "(spread task (updates\<lparr>updatedAt_P := x\<rparr>))\<lparr>updatedAt := v\<rparr>
     = (spread task updates)\<lparr>updatedAt := v\<rparr>"
  by (simp add: spread_def)

lemma updateTasks_updatedAt_key:
  "updateTasks toISOString clock k i (updates\<lparr>updatedAt_P := x\<rparr>) ts
     = updateTasks toISOString clock k i updates ts"
  by (induction ts arbitrary: k) (simp_all add: spread_updatedAt_overwritten)

lemma matchesBefore_0: "matchesBefore i 0 ts = 0"
  by (simp add: matchesBefore_def)

lemma matchesBefore_Suc:
  "matchesBefore i (Suc j) (task # rest)
     = (if id_T task = i then Suc (matchesBefore i j rest) else matchesBefore i j rest)"
  by (simp add: matchesBefore_def)

lemma updateTasks_nth:
  "j < length ts \<Longrightarrow>
   updateTasks toISOString clock k i updates ts ! j
     = (if id_T (ts ! j) = i
        then (spread (ts ! j) updates)\<lparr>updatedAt := toISOString (clock (k + matchesBefore i j ts))\<rparr>
        else ts ! j)"
proof (induction ts arbitrary: k j)
  case Nil
  then show ?case by simp
next
  case (Cons task rest)
  show ?case
  proof (cases j)
    case 0
    then show ?thesis by (simp add: matchesBefore_0)
  next
    case (Suc j')
    with Cons.prems have "j' < length rest" by simp
    from Cons.IH [OF this] Suc show ?thesis
      by (simp add: matchesBefore_Suc)
  qed
qed

text \<open>
  C1 (as amended). For every task list, every id and every partial field update that
  carries neither an \<open>id\<close> nor a \<open>createdAt\<close> key, \<open>updateTask(id, updates)\<close> keeps the
  length of the list, leaves the id and the \<open>createdAt\<close> of every matched task unchanged
  and sets its \<open>updatedAt\<close> to the clock reading taken for it, which is greater than or
  equal to the previous \<open>updatedAt\<close> whenever that reading is; all other tasks are
  unchanged.
\<close>

theorem updateTask_keeps_id_and_createdAt:
  fixes state :: AppState and updates :: TaskUpdates and i :: string and j :: nat
    and toISOString :: "int \<Rightarrow> string" and clock :: "nat \<Rightarrow> int"
  defines "old \<equiv> tasks state ! j"
    and "new \<equiv> tasks (updateTask toISOString clock i updates state) ! j"
    and "now \<equiv> toISOString (clock (matchesBefore i j (tasks state)))"
  assumes "id_P updates = None" and "createdAt_P updates = None"
    and "j < length (tasks state)"
  shows "length (tasks (updateTask toISOString clock i updates state)) = length (tasks state) \<and>
         (id_T old = i \<longrightarrow>
            id_T new = id_T old \<and> createdAt new = createdAt old \<and> updatedAt new = now \<and>
            (updatedAt old \<le> now \<longrightarrow> updatedAt old \<le> updatedAt new)) \<and>
         (id_T old \<noteq> i \<longrightarrow> new = old)"
proof -
  have len: "length (tasks (updateTask toISOString clock i updates state)) = length (tasks state)"
    by (simp add: updateTask_def updateTasks_length)
  have nth: "new = (if id_T old = i then (spread old updates)\<lparr>updatedAt := now\<rparr> else old)"
    using assms(6) unfolding old_def new_def now_def
    by (simp add: updateTask_def updateTasks_nth)
  have kept: "id_T (spread old updates) = id_T old \<and> createdAt (spread old updates) = createdAt old"
    using assms(4,5) by (simp add: spread_def override_def)
  from len nth kept show ?thesis by simp
qed

theorem updateTask_keeps_id_and_createdAt_witness:
  "id_T (tasks (updateTask isoTable (steadyClock 1700000060000) ''1700000000000-4fzyo82mv''
           (noUpdates\<lparr>title_P := Some ''Changed''\<rparr>) sampleState) ! 0)
     = ''1700000000000-4fzyo82mv'' \<and>
   createdAt (tasks (updateTask isoTable (steadyClock 1700000060000) ''1700000000000-4fzyo82mv''
           (noUpdates\<lparr>title_P := Some ''Changed''\<rparr>) sampleState) ! 0)
     = ''2023-11-14T22:13:20.000Z'' \<and>
   updatedAt (tasks (updateTask isoTable (steadyClock 1700000060000) ''1700000000000-4fzyo82mv''
           (noUpdates\<lparr>title_P := Some ''Changed''\<rparr>) sampleState) ! 0)
     = ''2023-11-14T22:14:20.000Z'' \<and>
   updatedAt (tasks sampleState ! 0)
     \<le> updatedAt (tasks (updateTask isoTable (steadyClock 1700000060000) ''1700000000000-4fzyo82mv''
           (noUpdates\<lparr>title_P := Some ''Changed''\<rparr>) sampleState) ! 0) \<and>
   tasks (updateTask isoTable (steadyClock 1700000060000) ''1700000000000-4fzyo82mv''
           (noUpdates\<lparr>title_P := Some ''Changed''\<rparr>) sampleState) ! 1
     = tasks sampleState ! 1"
proof -
  let ?u = "noUpdates\<lparr>title_P := Some ''Changed''\<rparr>"
  have u: "id_P ?u = None" "createdAt_P ?u = None"
    by (simp_all add: noUpdates_def)
  have len: "0 < length (tasks sampleState)" "1 < length (tasks sampleState)"
    by (simp_all add: sampleState_def)
  have first: "id_T (tasks sampleState ! 0) = ''1700000000000-4fzyo82mv''"
    "createdAt (tasks sampleState ! 0) = ''2023-11-14T22:13:20.000Z''"
    "updatedAt (tasks sampleState ! 0) = ''2023-11-14T22:13:20.000Z''"
    by (simp_all add: sampleState_def sampleTask_def)
  have second: "id_T (tasks sampleState ! 1) \<noteq> ''1700000000000-4fzyo82mv''"
    by (simp add: sampleState_def sampleTask_def)
  have now: "\<And>k. isoTable (steadyClock 1700000060000 k) = ''2023-11-14T22:14:20.000Z''"
    by (simp add: isoTable_def steadyClock_def)
  have order: "''2023-11-14T22:13:20.000Z'' \<le> ''2023-11-14T22:14:20.000Z''"
    by simp
  from updateTask_keeps_id_and_createdAt [OF u len(1), of isoTable "steadyClock 1700000060000"
         "''1700000000000-4fzyo82mv''"]
       updateTask_keeps_id_and_createdAt [OF u len(2), of isoTable "steadyClock 1700000060000"
         "''1700000000000-4fzyo82mv''"]
       first second now order
  show ?thesis by simp
qed

text \<open>
  As stated for every partial update, C1 fails: an \<open>id\<close> or \<open>createdAt\<close> key of the update
  is spread over the task, and a clock reading earlier than the stored \<open>updatedAt\<close> (here
  by one second) moves \<open>updatedAt\<close> backwards.
\<close>

theorem updateTask_rewrites_id_counterexample:
  "id_T (tasks (updateTask isoTable (steadyClock 1700000060000) ''1700000000000-4fzyo82mv''
           (noUpdates\<lparr>id_P := Some ''other''\<rparr>) sampleState) ! 0)
     \<noteq> id_T (tasks sampleState ! 0) \<and>
   createdAt (tasks (updateTask isoTable (steadyClock 1700000060000) ''1700000000000-4fzyo82mv''
           (noUpdates\<lparr>createdAt_P := Some ''2020-01-01T00:00:00.000Z''\<rparr>) sampleState) ! 0)
     \<noteq> createdAt (tasks sampleState ! 0) \<and>
   updatedAt (tasks (updateTask isoTable (steadyClock 1699999999000) ''1700000000000-4fzyo82mv''
           (noUpdates\<lparr>title_P := Some ''Changed''\<rparr>) sampleState) ! 0)
     < updatedAt (tasks sampleState ! 0)"
  by (simp add: updateTask_def sampleState_def sampleTask_def initialState_def spread_def
      override_def noUpdates_def isoTable_def steadyClock_def)

subsection \<open>Moving a task\<close>

text \<open>
  C4. For every store state, every id and every status \<open>s\<close>, \<open>moveTask(id, s)\<close> produces
  exactly the same resulting state as \<open>updateTask(id, {status: s})\<close>, both for the store's
  own \<open>moveTask\<close> and for the \<open>moveTask\<close> wrapper of the derived-view hook. The wrapper adds
  an \<open>updatedAt\<close> key to the update; the store overwrites it with its own clock reading.
\<close>

theorem moveTask_is_updateTask_status:
  "moveTask toISOString clock i s state
     = updateTask toISOString clock i (noUpdates\<lparr>status_P := Some s\<rparr>) state \<and>
   useTasks_moveTask toISOString t0 clock i s state
     = updateTask toISOString clock i (noUpdates\<lparr>status_P := Some s\<rparr>) state"
  by (simp add: moveTask_def useTasks_moveTask_def updateTask_def updateTasks_updatedAt_key)

subsection \<open>Ids that match no task\<close>

text \<open>
  C5. For every store state and every id that matches no task in the list,
  \<open>updateTask(id, updates)\<close> and \<open>deleteTask(id)\<close> leave the task list unchanged (same
  length, same tasks in the same order). Neither action has a failing branch: both are
  total functions from state to state, and here they return the state they were given.
\<close>

theorem absent_id_is_noop:
  assumes "i \<notin> set (map id_T (tasks state))"
  shows "tasks (updateTask toISOString clock i updates state) = tasks state \<and>
         tasks (deleteTask i state) = tasks state \<and>
         updateTask toISOString clock i updates state = state \<and>
         deleteTask i state = state"
  using assms by (simp add: updateTask_def deleteTask_def updateTasks_no_match filter_no_match)

theorem absent_id_is_noop_witness:
  "''no-such-id'' \<notin> set (map id_T (tasks sampleState)) \<and>
   tasks (updateTask isoTable (steadyClock 1700000060000) ''no-such-id''
            (noUpdates\<lparr>title_P := Some ''Changed''\<rparr>) sampleState) = tasks sampleState \<and>
   tasks (deleteTask ''no-such-id'' sampleState) = tasks sampleState \<and>
   length (tasks (deleteTask ''no-such-id'' sampleState)) = 2"
proof -
  have absent: "''no-such-id'' \<notin> set (map id_T (tasks sampleState))"
    by (simp add: sampleState_def sampleTask_def)
  have two: "length (tasks sampleState) = 2"
    by (simp add: sampleState_def)
  from absent_id_is_noop [OF absent, of isoTable "steadyClock 1700000060000"
      "noUpdates\<lparr>title_P := Some ''Changed''\<rparr>"] absent two
  show ?thesis by simp
qed

subsection \<open>Adding a task\<close>

lemma newTask_fields:
  "id_T (newTask toISOString nowMs rnd t1 t2 taskData) = generateId nowMs rnd"
  "createdAt (newTask toISOString nowMs rnd t1 t2 taskData) = toISOString t1"
  "updatedAt (newTask toISOString nowMs rnd t1 t2 taskData) = toISOString t2"
  "TaskData.truncate (newTask toISOString nowMs rnd t1 t2 taskData) = taskData"
  by (simp_all add: newTask_def TaskData.truncate_def)

lemma sample_generateId:
  "generateId 1700000000000 ''0.4fzyo82mvyr'' = ''1700000000000-4fzyo82mv''"
  "generateId 1700000000000 ''0.k2j8x0q1zab'' = ''1700000000000-k2j8x0q1z''"
  "generateId 1700000000000 ''0.9qwertyuiop'' = ''1700000000000-9qwertyui''"
  "generateId 1700000000001 ''0.k2j8x0q1zab'' = ''1700000000001-k2j8x0q1z''"
  "generateId 1700000000002 ''0.9qwertyuiop'' = ''1700000000002-9qwertyui''"
  by (simp_all add: generateId_def substr_def showInt_def showNat.simps digit_def)

text \<open>
  C3 (as amended). For every prior task list and every task input, \<open>addTask\<close> prepends one
  new task to the front of the list and leaves the existing tasks unchanged and in their
  prior order. The new task carries the input's fields; its id is the string
  \<open>generateId\<close> builds from its readings of the clock and of the random source, which
  differs from every id already in the list whenever that string is not among them; its
  \<open>createdAt\<close> and \<open>updatedAt\<close> are the ISO strings of two successive clock readings, equal
  whenever the two readings are equal.
\<close>

theorem addTask_prepends_generated_task:
  "tasks (addTask toISOString nowMs rnd t1 t2 taskData state)
     = newTask toISOString nowMs rnd t1 t2 taskData # tasks state \<and>
   TaskData.truncate (newTask toISOString nowMs rnd t1 t2 taskData) = taskData \<and>
   id_T (newTask toISOString nowMs rnd t1 t2 taskData) = generateId nowMs rnd \<and>
   createdAt (newTask toISOString nowMs rnd t1 t2 taskData) = toISOString t1 \<and>
   updatedAt (newTask toISOString nowMs rnd t1 t2 taskData) = toISOString t2 \<and>
   (generateId nowMs rnd \<notin> set (map id_T (tasks state)) \<longrightarrow>
      id_T (newTask toISOString nowMs rnd t1 t2 taskData) \<notin> set (map id_T (tasks state))) \<and>
   (t1 = t2 \<longrightarrow>
      createdAt (newTask toISOString nowMs rnd t1 t2 taskData)
        = updatedAt (newTask toISOString nowMs rnd t1 t2 taskData))"
  by (simp add: addTask_def newTask_fields)

theorem addTask_prepends_generated_task_witness:
  "generateId 1700000000002 ''0.9qwertyuiop'' \<notin> set (map id_T (tasks sampleState)) \<and>
   tasks (addTask isoTable 1700000000002 ''0.9qwertyuiop'' 1700000000002 1700000000002
            (sampleData ''Ship'') sampleState)
     = newTask isoTable 1700000000002 ''0.9qwertyuiop'' 1700000000002 1700000000002
         (sampleData ''Ship'') # tasks sampleState \<and>
   id_T (newTask isoTable 1700000000002 ''0.9qwertyuiop'' 1700000000002 1700000000002
         (sampleData ''Ship'')) \<notin> set (map id_T (tasks sampleState)) \<and>
   createdAt (newTask isoTable 1700000000002 ''0.9qwertyuiop'' 1700000000002 1700000000002
         (sampleData ''Ship''))
     = updatedAt (newTask isoTable 1700000000002 ''0.9qwertyuiop'' 1700000000002 1700000000002
         (sampleData ''Ship''))"
proof -
  have fresh: "generateId 1700000000002 ''0.9qwertyuiop'' \<notin> set (map id_T (tasks sampleState))"
    by (simp add: sample_generateId sampleState_def sampleTask_def)
  from addTask_prepends_generated_task [of isoTable 1700000000002 "''0.9qwertyuiop''"
         1700000000002 1700000000002 "sampleData ''Ship''" sampleState] fresh
  show ?thesis by simp
qed

text \<open>
  As stated, C3 fails: a second \<open>addTask\<close> in the same millisecond that draws the same
  random suffix repeats the id of the first, and a clock that ticks between the two
  \<open>new Date()\<close> calls makes \<open>createdAt\<close> differ from \<open>updatedAt\<close>.
\<close>

theorem addTask_collision_counterexample:
  "id_T (hd (tasks (addTask isoTable 1700000000000 ''0.4fzyo82mvyr'' 1700000000000 1700000000001
           (sampleData ''Again'')
           (addTask isoTable 1700000000000 ''0.4fzyo82mvyr'' 1700000000000 1700000000000
              (sampleData ''Notes'') initialState))))
     \<in> set (map id_T (tasks (addTask isoTable 1700000000000 ''0.4fzyo82mvyr''
           1700000000000 1700000000000 (sampleData ''Notes'') initialState))) \<and>
   createdAt (hd (tasks (addTask isoTable 1700000000000 ''0.4fzyo82mvyr'' 1700000000000
           1700000000001 (sampleData ''Again'')
           (addTask isoTable 1700000000000 ''0.4fzyo82mvyr'' 1700000000000 1700000000000
              (sampleData ''Notes'') initialState))))
     \<noteq> updatedAt (hd (tasks (addTask isoTable 1700000000000 ''0.4fzyo82mvyr'' 1700000000000
           1700000000001 (sampleData ''Again'')
           (addTask isoTable 1700000000000 ''0.4fzyo82mvyr'' 1700000000000 1700000000000
              (sampleData ''Notes'') initialState))))"
  by (simp add: addTask_def newTask_fields initialState_def isoTable_def)

subsection \<open>Uniqueness of ids\<close>










subsection \<open>Logging out\<close>

text \<open>
  C6. For every prior store state, \<open>logout()\<close> results in a state whose task list is empty
  and whose user is null.
\<close>

theorem logout_clears_tasks_and_user:
  "tasks (logout state) = [] \<and> user (logout state) = None"
  by (simp add: logout_def)

text \<open>
  C10. For every prior store state, \<open>logout()\<close> leaves the theme, filters, sortBy and
  isLoading fields unchanged; only tasks and user are modified.
\<close>

theorem logout_frame:
  "theme (logout state) = theme state \<and> filters (logout state) = filters state \<and>
   sortBy (logout state) = sortBy state \<and> isLoading (logout state) = isLoading state \<and>
   logout state = state\<lparr>tasks := [], user := None\<rparr>"
  by (simp add: logout_def)

subsection \<open>The persisted object\<close>

lemma partialize_fields:
  "map fst (partialize state) = [''tasks'', ''user'', ''theme'']"
  "map_of (partialize state) ''tasks'' = Some (TasksValue (tasks state))"
  "map_of (partialize state) ''user'' = Some (UserValue (user state))"
  "map_of (partialize state) ''theme'' = Some (ThemeValue (theme state))"
  "map_of (partialize state) ''filters'' = None"
  "map_of (partialize state) ''sortBy'' = None"
  "map_of (partialize state) ''isLoading'' = None"
  by (simp_all add: partialize_def)

lemma dispatch_world:
  "world (dispatch toISOString b a) = step toISOString (world b) a"
  by (simp add: dispatch_def Let_def)

lemma dispatch_slot:
  "localStorage (dispatch toISOString b a) persistName
     = Some (persistedObject (store (step toISOString (world b) a)))"
  by (simp add: dispatch_def Let_def setItem_def)

text \<open>
  C8 (as amended). For every store state and every action of the store, the object
  written under the key \<open>taskflow-storage\<close> after the action is
  \<open>{ state, version: 0 }\<close>, and its \<open>state\<close> field has exactly the three fields \<open>tasks\<close>,
  \<open>user\<close> and \<open>theme\<close>, equal to the corresponding fields of the state the action leaves,
  and contains no \<open>filters\<close>, \<open>sortBy\<close> or \<open>isLoading\<close> field.
\<close>

theorem persisted_state_three_fields:
  fixes toISOString :: "int \<Rightarrow> string" and b :: Browser and a :: Action
  defines "after \<equiv> store (world (dispatch toISOString b a))"
  shows "after = store (step toISOString (world b) a) \<and>
         localStorage (dispatch toISOString b a) ''taskflow-storage''
           = Some (ObjectValue [(''state'', ObjectValue (partialize after)),
                                (''version'', NumberValue 0)]) \<and>
         map fst (partialize after) = [''tasks'', ''user'', ''theme''] \<and>
         map_of (partialize after) ''tasks'' = Some (TasksValue (tasks after)) \<and>
         map_of (partialize after) ''user'' = Some (UserValue (user after)) \<and>
         map_of (partialize after) ''theme'' = Some (ThemeValue (theme after)) \<and>
         map_of (partialize after) ''filters'' = None \<and>
         map_of (partialize after) ''sortBy'' = None \<and>
         map_of (partialize after) ''isLoading'' = None"
proof -
  have state: "after = store (step toISOString (world b) a)"
    unfolding after_def by (simp add: dispatch_world)
  have slot: "localStorage (dispatch toISOString b a) ''taskflow-storage''
      = Some (ObjectValue [(''state'', ObjectValue (partialize after)),
                           (''version'', NumberValue 0)])"
    using dispatch_slot [of toISOString b a] state
    by (simp add: persistName_def persistedObject_def persistVersion_def)
  from state slot show ?thesis by (simp add: partialize_fields)
qed

text \<open>
  As stated, C8 fails: the top-level fields of the object written to the slot are
  \<open>state\<close> and \<open>version\<close>; \<open>tasks\<close>, \<open>user\<close> and \<open>theme\<close> lie one level down.
\<close>

theorem persisted_top_level_counterexample:
  "map_option topLevelKeys
     (localStorage (dispatch isoTable sampleBrowser (SetSortBy sort_title)) ''taskflow-storage'')
     = Some [''state'', ''version''] \<and>
   map_option topLevelKeys
     (localStorage (dispatch isoTable sampleBrowser (SetSortBy sort_title)) ''taskflow-storage'')
     \<noteq> Some [''tasks'', ''user'', ''theme'']"
  by (simp add: dispatch_def Let_def setItem_def persistName_def persistedObject_def)

section \<open>Properties of the helpers\<close>

subsection \<open>Due dates\<close>




subsection \<open>Truncation\<close>

lemma substring_prefix: "substring s 0 (int n) = take n s"
  by (simp add: substring_def Let_def min_def max_def)

text \<open>
  C9. For every string \<open>text\<close> and every natural number \<open>maxLength\<close>,
  \<open>truncate(text, maxLength)\<close> returns \<open>text\<close> unchanged when its length is at most
  \<open>maxLength\<close>, and otherwise the first \<open>maxLength\<close> characters of \<open>text\<close> followed by
  \<open>...\<close>; in particular \<open>truncate("This is a very long text", 10) = "This is a ..."\<close> and
  \<open>truncate("short", 10) = "short"\<close>.
\<close>

theorem truncate_spec:
  "truncate s (int n) = (if length s \<le> n then s else take n s @ ''...'') \<and>
   truncate ''This is a very long text'' 10 = ''This is a ...'' \<and>
   truncate ''short'' 10 = ''short''"
proof -
  have general: "truncate s (int n) = (if length s \<le> n then s else take n s @ ''...'')"
    by (simp add: truncate_def substring_prefix)
  have long: "truncate ''This is a very long text'' 10 = ''This is a ...''"
    by (simp add: truncate_def substring_def)
  have short: "truncate ''short'' 10 = ''short''"
    by (simp add: truncate_def)
  from general long short show ?thesis by blast
qed

end
